theory Spec2Isabelle
  imports Main "HOL-Library.Sublist"
begin

section \<open>The AlloyDB engine of langchaingo: \<^verbatim>\<open>internal/alloydbutil/engine.go\<close>\<close>

text \<open>
  The development follows \<^verbatim>\<open>engine.go\<close> function by function. Go strings are
  \<^typ>\<open>string\<close> (byte lists), a pointer that the code compares with \<^verbatim>\<open>nil\<close> is an
  \<^typ>\<open>'a option\<close>, a Go \<^verbatim>\<open>error\<close> result is an \<open>error option\<close> (\<open>None\<close> is \<^verbatim>\<open>nil\<close>),
  and a run-time panic (a \<^verbatim>\<open>nil\<close> dereference, a call of a \<^verbatim>\<open>nil\<close> function) is the
  outcome \<open>Panicked\<close>. The libraries the engine calls (the AlloyDB dialer, \<^verbatim>\<open>pgxpool\<close>,
  the identity provider) are parameters of the model; every call made to them is logged,
  so that what the engine asks of them can be stated.
\<close>

subsection \<open>Errors\<close>

text \<open>
  \<^verbatim>\<open>errors.New(s)\<close> is \<open>New s\<close>. \<^verbatim>\<open>fmt.Errorf(p + "%w", err)\<close> is \<open>Wrap p err\<close>: it keeps
  the cause, and its message is \<open>p\<close> followed by the message of the cause.
  \<^verbatim>\<open>fmt.Errorf(p + "%v", err)\<close> formats the cause into a fresh error and keeps no link.
\<close>

datatype error = New string | Wrap string error

fun Error :: "error \<Rightarrow> string" where
  "Error (New s) = s"
| "Error (Wrap p e) = p @ Error e"

fun Unwrap :: "error \<Rightarrow> error option" where
  "Unwrap (New s) = None"
| "Unwrap (Wrap p e) = Some e"

definition Errorf_v :: "string \<Rightarrow> error \<Rightarrow> error" where
  "Errorf_v p e = New (p @ Error e)"

datatype 'a outcome = Returned 'a | Panicked

subsection \<open>Configuration\<close>

text \<open>\<^verbatim>\<open>context.Context\<close> is opaque to the engine: it is only passed on.\<close>

datatype "context" = Background | WithCancel "context"

text \<open>A \<^verbatim>\<open>*pgxpool.Pool\<close> that is not \<^verbatim>\<open>nil\<close>: an opaque handle.\<close>

datatype Pool = PoolHandle nat

text \<open>
  \<^verbatim>\<open>type EmailRetriever func(context.Context) (string, error)\<close>. \<open>getUser\<close> calls it at
  most once and looks at nothing but the pair it returns.
\<close>

type_synonym EmailRetriever = "context \<Rightarrow> string \<times> error option"

text \<open>
  \<^verbatim>\<open>engineConfig\<close> is declared beside the options, outside \<^verbatim>\<open>engine.go\<close>; these are the
  fields \<^verbatim>\<open>engine.go\<close> reads and writes. The field \<^verbatim>\<open>instance\<close> is spelt \<open>instance'\<close>, and
  a \<^verbatim>\<open>nil\<close> \<^verbatim>\<open>emailRetreiver\<close> or \<^verbatim>\<open>connPool\<close> is \<open>None\<close>.
\<close>

record engineConfig =
  projectID :: string
  region :: string
  cluster :: string
  instance' :: string
  connPool :: "Pool option"
  database :: string
  user :: string
  password :: string
  ipType :: string
  iamAccountEmail :: string
  emailRetreiver :: "EmailRetriever option"

text \<open>\<^verbatim>\<open>engineConfig{}\<close>: every field at its zero value.\<close>

definition engineConfig_zero :: engineConfig where
  "engineConfig_zero =
    \<lparr>projectID = [], region = [], cluster = [], instance' = [], connPool = None, database = [],
     user = [], password = [], ipType = [], iamAccountEmail = [], emailRetreiver = None\<rparr>"

subsection \<open>Calls to the collaborators\<close>

datatype alloydbconn_Option = WithIAMAuthN

datatype DialOption = WithPrivateIP | WithPublicIP

datatype Dialer = DialerHandle nat

text \<open>
  \<^verbatim>\<open>d.Dial(ctx, instanceURI, opt)\<close>: the dial function of the pool returns whatever this call
  returns, so the dial function is modelled by the call it makes.
\<close>

datatype DialCall = Dial Dialer "context" string DialOption

text \<open>
  A \<^verbatim>\<open>*pgxpool.Config\<close>: what \<^verbatim>\<open>ParseConfig\<close> made of the descriptor, and the field
  \<^verbatim>\<open>ConnConfig.DialFunc\<close> that \<open>createPool\<close> sets.
\<close>

record Config =
  ConnString :: string
  ConnConfig_DialFunc :: "(context \<Rightarrow> string \<Rightarrow> string \<Rightarrow> DialCall) option"

datatype call =
    EmailRetrieverCall "context"
  | NewDialerCall "context" "alloydbconn_Option list"
  | ParseConfigCall string
  | NewWithConfigCall "context" Config

subsection \<open>\<^verbatim>\<open>getUser\<close>\<close>

text \<open>
  The result is Go's triple \<^verbatim>\<open>(string, bool, error)\<close>, with the log of the calls to the
  email retriever.
\<close>

definition getUser :: "context \<Rightarrow> engineConfig \<Rightarrow> (string \<times> bool \<times> error option) outcome \<times> call list" where
  "getUser ctx config =
    (if user config \<noteq> [] \<and> password config \<noteq> [] then
       (Returned (user config, False, None), [])
     else if iamAccountEmail config \<noteq> [] then
       (Returned (iamAccountEmail config, True, None), [])
     else if user config = [] \<and> password config = [] \<and> iamAccountEmail config = [] then
       (case emailRetreiver config of
          None \<Rightarrow> (Panicked, [])
        | Some retrieve \<Rightarrow>
            (case retrieve ctx of
               (serviceAccountEmail, Some err) \<Rightarrow>
                 (Returned ([], False, Some (Wrap ''unable to retrieve service account email: '' err)),
                  [EmailRetrieverCall ctx])
             | (serviceAccountEmail, None) \<Rightarrow>
                 (Returned (serviceAccountEmail, True, None), [EmailRetrieverCall ctx])))
     else
       (Returned ([], False, Some (New ''unable to retrieve a valid username'')), []))"

subsection \<open>\<^verbatim>\<open>createPool\<close>\<close>

text \<open>
  The three library calls of \<open>createPool\<close>, each returning Go's pair of a value and an
  error: \<^verbatim>\<open>alloydbconn.NewDialer\<close>, \<^verbatim>\<open>pgxpool.ParseConfig\<close> and \<^verbatim>\<open>pgxpool.NewWithConfig\<close>.
\<close>

record externals =
  NewDialer :: "context \<Rightarrow> alloydbconn_Option list \<Rightarrow> Dialer \<times> error option"
  ParseConfig :: "string \<Rightarrow> Config \<times> error option"
  NewWithConfig :: "context \<Rightarrow> Config \<Rightarrow> Pool option \<times> error option"

text \<open>Lines 54 to 59: the dialer options and the descriptor, after the \<^verbatim>\<open>if usingIAMAuth\<close>.\<close>

definition dialeropts :: "bool \<Rightarrow> alloydbconn_Option list" where
  "dialeropts usingIAMAuth = (if usingIAMAuth then [] @ [WithIAMAuthN] else [])"

definition dsn :: "engineConfig \<Rightarrow> bool \<Rightarrow> string" where
  "dsn cfg usingIAMAuth =
    (let dsn = ''user='' @ user cfg @ '' password='' @ password cfg @ '' dbname='' @ database cfg
                 @ '' sslmode=disable'';
         dsn = (if usingIAMAuth then
                  ''user='' @ user cfg @ '' dbname='' @ database cfg @ '' sslmode=disable''
                else dsn)
     in dsn)"

text \<open>Line 69.\<close>

definition instanceURI :: "engineConfig \<Rightarrow> string" where
  "instanceURI cfg =
    ''projects/'' @ projectID cfg @ ''/locations/'' @ region cfg @ ''/clusters/'' @ cluster cfg
      @ ''/instances/'' @ instance' cfg"

text \<open>Lines 70 to 75: the closure over \<^verbatim>\<open>cfg\<close>, \<^verbatim>\<open>d\<close> and \<^verbatim>\<open>instanceURI\<close>.\<close>

definition DialFunc :: "engineConfig \<Rightarrow> Dialer \<Rightarrow> string \<Rightarrow> context \<Rightarrow> string \<Rightarrow> string \<Rightarrow> DialCall" where
  "DialFunc cfg d uri ctx network addr =
    (if ipType cfg = ''PRIVATE'' then Dial d ctx uri WithPrivateIP
     else Dial d ctx uri WithPublicIP)"

definition createPool ::
  "externals \<Rightarrow> context \<Rightarrow> engineConfig \<Rightarrow> bool \<Rightarrow> (Pool option \<times> error option) \<times> call list" where
  "createPool ext ctx cfg usingIAMAuth =
    (case NewDialer ext ctx (dialeropts usingIAMAuth) of
       (d, Some err) \<Rightarrow>
         ((None, Some (Wrap ''failed to initialize connection: '' err)),
          [NewDialerCall ctx (dialeropts usingIAMAuth)])
     | (d, None) \<Rightarrow>
         (case ParseConfig ext (dsn cfg usingIAMAuth) of
            (config, Some err) \<Rightarrow>
              ((None, Some (Wrap ''failed to parse connection config: '' err)),
               [NewDialerCall ctx (dialeropts usingIAMAuth), ParseConfigCall (dsn cfg usingIAMAuth)])
          | (config, None) \<Rightarrow>
              (let config' = config\<lparr>ConnConfig_DialFunc := Some (DialFunc cfg d (instanceURI cfg))\<rparr> in
               case NewWithConfig ext ctx config' of
                 (pool, Some err) \<Rightarrow>
                   ((None, Some (Wrap ''unable to create connection pool: '' err)),
                    [NewDialerCall ctx (dialeropts usingIAMAuth),
                     ParseConfigCall (dsn cfg usingIAMAuth), NewWithConfigCall ctx config'])
               | (pool, None) \<Rightarrow>
                   ((pool, None),
                    [NewDialerCall ctx (dialeropts usingIAMAuth),
                     ParseConfigCall (dsn cfg usingIAMAuth), NewWithConfigCall ctx config']))))"

subsection \<open>\<^verbatim>\<open>NewPostgresEngine\<close>\<close>

record PostgresEngine =
  Pool :: "Pool option"

text \<open>
  \<^verbatim>\<open>applyClientOptions\<close> is declared beside the options, outside \<^verbatim>\<open>engine.go\<close>: it is the
  parameter \<open>applyClientOptions\<close>, any function from the options to a configuration and an
  error. The engine returned is a pointer: \<open>None\<close> is \<^verbatim>\<open>nil\<close>.
\<close>

definition NewPostgresEngine ::
  "('opt list \<Rightarrow> engineConfig \<times> error option) \<Rightarrow> externals \<Rightarrow> context \<Rightarrow> 'opt list
    \<Rightarrow> (PostgresEngine option \<times> error option) outcome \<times> call list" where
  "NewPostgresEngine applyClientOptions ext ctx opts =
    (let pgEngine = \<lparr>Pool = None\<rparr> in
     case applyClientOptions opts of
       (cfg, Some err) \<Rightarrow> (Returned (None, Some err), [])
     | (cfg, None) \<Rightarrow>
         (case getUser ctx cfg of
            (Panicked, log) \<Rightarrow> (Panicked, log)
          | (Returned (usr, usingIAMAuth, Some err), log) \<Rightarrow>
              (Returned (None, Some (Wrap ''error assigning user. Err: '' err)), log)
          | (Returned (usr, usingIAMAuth, None), log) \<Rightarrow>
              (let cfg = (if usingIAMAuth then cfg\<lparr>user := usr\<rparr> else cfg) in
               if connPool cfg = None then
                 (case createPool ext ctx cfg usingIAMAuth of
                    ((pool, Some err), log') \<Rightarrow>
                      (Returned (Some \<lparr>Pool = None\<rparr>, Some err), log @ log')
                  | ((pool, None), log') \<Rightarrow>
                      (Returned (Some (pgEngine\<lparr>Pool := pool\<rparr>), None), log @ log'))
               else
                 (Returned (Some (pgEngine\<lparr>Pool := connPool cfg\<rparr>), None), log))))"

subsection \<open>The pool: \<^verbatim>\<open>Exec\<close> and \<^verbatim>\<open>Close\<close>\<close>

text \<open>
  The database behind the pool is a state of any type \<open>'db\<close>. \<^verbatim>\<open>pgxpool.Pool.Exec\<close> answers
  a statement with an error or \<^verbatim>\<open>nil\<close> and a new state (its command tag is dropped by every
  caller in \<^verbatim>\<open>engine.go\<close>); \<^verbatim>\<open>pgxpool.Pool.Close\<close> returns nothing. The server pairs the
  state with the log of the calls made to the pool.
\<close>

record 'db pgxpool =
  Pool_Exec :: "Pool \<Rightarrow> context \<Rightarrow> string \<Rightarrow> 'db \<Rightarrow> error option \<times> 'db"
  Pool_Close :: "Pool \<Rightarrow> 'db \<Rightarrow> 'db"

datatype poolCall = ExecCall Pool "context" string | CloseCall Pool

record 'db server =
  db :: 'db
  calls :: "poolCall list"

text \<open>\<^verbatim>\<open>p.Pool.Exec(ctx, sql)\<close> through a pool reference that may be \<^verbatim>\<open>nil\<close>.\<close>

definition Exec ::
  "'db pgxpool \<Rightarrow> Pool option \<Rightarrow> context \<Rightarrow> string \<Rightarrow> 'db server \<Rightarrow> error option outcome \<times> 'db server" where
  "Exec lib pool ctx sql s =
    (case pool of
       None \<Rightarrow> (Panicked, s)
     | Some h \<Rightarrow>
         (case Pool_Exec lib h ctx sql (db s) of
            (err, d) \<Rightarrow> (Returned err, \<lparr>db = d, calls = calls s @ [ExecCall h ctx sql]\<rparr>)))"

text \<open>\<^verbatim>\<open>func (p *PostgresEngine) Close()\<close>: the receiver is a pointer, \<open>None\<close> is \<^verbatim>\<open>nil\<close>.\<close>

definition Close :: "'db pgxpool \<Rightarrow> PostgresEngine option \<Rightarrow> 'db server \<Rightarrow> unit outcome \<times> 'db server" where
  "Close lib p s =
    (case p of
       None \<Rightarrow> (Panicked, s)
     | Some e \<Rightarrow>
         (case Pool e of
            Some h \<Rightarrow> (Returned (), \<lparr>db = Pool_Close lib h (db s), calls = calls s @ [CloseCall h]\<rparr>)
          | None \<Rightarrow> (Returned (), s)))"

subsection \<open>Table specifications\<close>

record Column =
  Name :: string
  DataType :: string
  Nullable :: bool

text \<open>
  \<^verbatim>\<open>VectorstoreTableOptions\<close> is declared beside the options, outside \<^verbatim>\<open>engine.go\<close>; these
  are the fields \<^verbatim>\<open>engine.go\<close> uses. \<^verbatim>\<open>VectorSize\<close> is compared with 0 and printed with
  \<^verbatim>\<open>%d\<close>: an integer.
\<close>

record VectorstoreTableOptions =
  TableName :: string
  VectorSize :: int
  SchemaName :: string
  ContentColumnName :: string
  EmbeddingColumn :: string
  MetadataJsonColumn :: string

text \<open>\<^verbatim>\<open>new(VectorstoreTableOptions)\<close>: every field at its zero value.\<close>

definition new_VectorstoreTableOptions :: VectorstoreTableOptions where
  "new_VectorstoreTableOptions =
    \<lparr>TableName = [], VectorSize = 0, SchemaName = [], ContentColumnName = [],
     EmbeddingColumn = [], MetadataJsonColumn = []\<rparr>"

text \<open>The argument is a pointer: reading a field of \<^verbatim>\<open>nil\<close> panics.\<close>

definition NewVectorstoreTableOptions ::
  "VectorstoreTableOptions option \<Rightarrow> (VectorstoreTableOptions \<times> error option) outcome" where
  "NewVectorstoreTableOptions opts' =
    (case opts' of
       None \<Rightarrow> Panicked
     | Some opts \<Rightarrow>
        (let vectorstoreTableOptions = new_VectorstoreTableOptions in
         if TableName opts = [] then
           Returned (vectorstoreTableOptions, Some (New ''missing table name in options''))
         else if VectorSize opts = 0 then
           Returned (vectorstoreTableOptions, Some (New ''missing vector size in options''))
         else
           Returned
            (vectorstoreTableOptions
               \<lparr>TableName := TableName opts,
                VectorSize := VectorSize opts,
                SchemaName := (if SchemaName opts \<noteq> [] then SchemaName opts else ''public''),
                ContentColumnName :=
                  (if ContentColumnName opts \<noteq> [] then ContentColumnName opts else ''content''),
                EmbeddingColumn :=
                  (if EmbeddingColumn opts \<noteq> [] then EmbeddingColumn opts else ''embedding''),
                MetadataJsonColumn :=
                  (if MetadataJsonColumn opts \<noteq> [] then MetadataJsonColumn opts
                   else ''langchain_metadata'')\<rparr>,
             None)))"

subsection \<open>Formatting\<close>

text \<open>\<^verbatim>\<open>%d\<close> of an integer: decimal digits, with a minus sign when negative.\<close>

definition digit :: "nat \<Rightarrow> char" where
  "digit n = ''0123456789'' ! n"

function decimal :: "nat \<Rightarrow> string" where
  "decimal n = (if n < 10 then [digit n] else decimal (n div 10) @ [digit (n mod 10)])"
  by pat_completeness auto
termination
  by (relation "measure (\<lambda>n. n)") auto

definition Sprintf_d :: "int \<Rightarrow> string" where
  "Sprintf_d i = (if i < 0 then CHR ''-'' # decimal (nat (- i)) else decimal (nat i))"

text \<open>\<^verbatim>\<open>"%s"\<close>: the value between two double quotes, as it is. The raw string literals
  of the statements hold line feeds and tabs.\<close>

definition dquote :: char where
  "dquote = CHR 0x22"

definition quoted :: "string \<Rightarrow> string" where
  "quoted s = [dquote] @ s @ [dquote]"

definition nl_tab_tab :: string where
  "nl_tab_tab = [CHR 0x0A, CHR 0x09, CHR 0x09]"

subsection \<open>\<^verbatim>\<open>InitVectorstoreTable\<close>\<close>

text \<open>Lines 196 to 202: the defaults of the id column.\<close>

definition defaultIdColumn :: "Column \<Rightarrow> Column" where
  "defaultIdColumn idColumn =
    (let idColumn = (if Name idColumn = [] then idColumn\<lparr>Name := ''langchain_id''\<rparr> else idColumn);
         idColumn = (if DataType idColumn = [] then idColumn\<lparr>DataType := ''UUID''\<rparr> else idColumn)
     in idColumn)"

text \<open>Line 190.\<close>

definition dropQuery :: "VectorstoreTableOptions \<Rightarrow> string" where
  "dropQuery vsTableOpts =
    ''DROP TABLE IF EXISTS '' @ quoted (SchemaName vsTableOpts) @ ''.'' @ quoted (TableName vsTableOpts)"

text \<open>Lines 211 to 217: the body of the loop over the metadata columns.\<close>

definition addColumn :: "string \<Rightarrow> Column \<Rightarrow> string" where
  "addColumn query column =
    (let nullable = (if \<not> Nullable column then ''NOT NULL'' else []) in
     query @ '', '' @ quoted (Name column) @ '' '' @ DataType column @ '' '' @ nullable)"

text \<open>Lines 196 to 224: the statement that creates the table.\<close>

definition createQuery :: "VectorstoreTableOptions \<Rightarrow> Column list \<Rightarrow> Column \<Rightarrow> bool \<Rightarrow> string" where
  "createQuery vsTableOpts metadataColumns idColumn storeMetadata =
    (let idColumn = defaultIdColumn idColumn;
         query = ''CREATE TABLE '' @ quoted (SchemaName vsTableOpts) @ ''.''
                   @ quoted (TableName vsTableOpts) @ '' ('' @ nl_tab_tab
                   @ quoted (Name idColumn) @ '' '' @ DataType idColumn @ '' PRIMARY KEY,'' @ nl_tab_tab
                   @ quoted (ContentColumnName vsTableOpts) @ '' TEXT NOT NULL,'' @ nl_tab_tab
                   @ quoted (EmbeddingColumn vsTableOpts) @ '' vector(''
                   @ Sprintf_d (VectorSize vsTableOpts) @ '') NOT NULL'';
         query = foldl addColumn query metadataColumns;
         query = (if storeMetadata then
                    query @ '', '' @ quoted (MetadataJsonColumn vsTableOpts) @ '' JSON''
                  else query)
     in query @ '');'')"

definition InitVectorstoreTable ::
  "'db pgxpool \<Rightarrow> PostgresEngine option \<Rightarrow> context \<Rightarrow> VectorstoreTableOptions \<Rightarrow> Column list
    \<Rightarrow> Column \<Rightarrow> bool \<Rightarrow> bool \<Rightarrow> 'db server \<Rightarrow> error option outcome \<times> 'db server" where
  "InitVectorstoreTable lib p ctx vsTableOpts metadataColumns idColumn overwriteExisting storeMetadata s =
    (case p of
       None \<Rightarrow> (Panicked, s)
     | Some e \<Rightarrow>
        (case Exec lib (Pool e) ctx ''CREATE EXTENSION IF NOT EXISTS vector'' s of
           (Panicked, s1) \<Rightarrow> (Panicked, s1)
         | (Returned (Some err), s1) \<Rightarrow>
             (Returned (Some (Errorf_v ''failed to create extension: '' err)), s1)
         | (Returned None, s1) \<Rightarrow>
            (case (if overwriteExisting then Exec lib (Pool e) ctx (dropQuery vsTableOpts) s1
                   else (Returned None, s1)) of
               (Panicked, s2) \<Rightarrow> (Panicked, s2)
             | (Returned (Some err), s2) \<Rightarrow>
                 (Returned (Some (Errorf_v ''failed to drop table: '' err)), s2)
             | (Returned None, s2) \<Rightarrow>
                (case Exec lib (Pool e) ctx
                        (createQuery vsTableOpts metadataColumns idColumn storeMetadata) s2 of
                   (Panicked, s3) \<Rightarrow> (Panicked, s3)
                 | (Returned (Some err), s3) \<Rightarrow>
                     (Returned (Some (Errorf_v ''failed to create table: '' err)), s3)
                 | (Returned None, s3) \<Rightarrow> (Returned None, s3)))))"

subsection \<open>\<^verbatim>\<open>InitChatHistoryTable\<close>\<close>

text \<open>Lines 237 to 242.\<close>

definition createTableQuery :: "string \<Rightarrow> string \<Rightarrow> string" where
  "createTableQuery tableName schemaName =
    ''CREATE TABLE IF NOT EXISTS '' @ quoted schemaName @ ''.'' @ quoted tableName @ '' (''
      @ nl_tab_tab @ ''id SERIAL PRIMARY KEY,''
      @ nl_tab_tab @ ''session_id TEXT NOT NULL,''
      @ nl_tab_tab @ ''data JSONB NOT NULL,''
      @ nl_tab_tab @ ''type TEXT NOT NULL''
      @ [CHR 0x0A, CHR 0x09] @ '');''"

definition InitChatHistoryTable ::
  "'db pgxpool \<Rightarrow> PostgresEngine option \<Rightarrow> context \<Rightarrow> string \<Rightarrow> string \<Rightarrow> 'db server
    \<Rightarrow> error option outcome \<times> 'db server" where
  "InitChatHistoryTable lib p ctx tableName schemaName s =
    (case p of
       None \<Rightarrow> (Panicked, s)
     | Some e \<Rightarrow>
        (case Exec lib (Pool e) ctx (createTableQuery tableName schemaName) s of
           (Panicked, s1) \<Rightarrow> (Panicked, s1)
         | (Returned (Some err), s1) \<Rightarrow>
             (Returned (Some (Errorf_v ''failed to execute query: '' err)), s1)
         | (Returned None, s1) \<Rightarrow> (Returned None, s1)))"

subsection \<open>Reading the logs\<close>


definition configs :: "call list \<Rightarrow> Config list" where
  "configs log = [config. NewWithConfigCall ctx config \<leftarrow> log]"

definition statements :: "poolCall list \<Rightarrow> string list" where
  "statements log = [sql. ExecCall h ctx sql \<leftarrow> log]"

text \<open>What each dial function installed in those configurations dials, for given arguments.\<close>

definition dialed :: "call list \<Rightarrow> context \<Rightarrow> string \<Rightarrow> string \<Rightarrow> DialCall option list" where
  "dialed log ctx network addr =
    map (\<lambda>config. map_option (\<lambda>f. f ctx network addr) (ConnConfig_DialFunc config)) (configs log)"

subsection \<open>Fields of a descriptor\<close>






subsection \<open>Sample collaborators\<close>

text \<open>
  Collaborators to run the engine on: libraries in which every call succeeds, a dialer
  library that cannot start, and a database.
\<close>

definition externals_ok :: externals where
  "externals_ok =
    \<lparr>NewDialer = (\<lambda>ctx opts. (DialerHandle 0, None)),
     ParseConfig = (\<lambda>s. (\<lparr>ConnString = s, ConnConfig_DialFunc = None\<rparr>, None)),
     NewWithConfig = (\<lambda>ctx config. (Some (PoolHandle 0), None))\<rparr>"


definition externals_no_dialer :: externals where
  "externals_no_dialer =
    externals_ok\<lparr>NewDialer := (\<lambda>ctx opts. (DialerHandle 0, Some (New ''no credentials'')))\<rparr>"

text \<open>
  A database that keeps the statements it has run and refuses a plain \<^verbatim>\<open>CREATE TABLE\<close> that it
  has run before.
\<close>

definition pgxpool_catalogue :: "string list pgxpool" where
  "pgxpool_catalogue =
    \<lparr>Pool_Exec = (\<lambda>h ctx sql d.
        if prefix (''CREATE TABLE '' @ [dquote]) sql \<and> sql \<in> set d
        then (Some (New ''relation already exists''), d)
        else (None, d @ [sql])),
     Pool_Close = (\<lambda>h d. d)\<rparr>"

section \<open>Identity resolution\<close>

lemma Error_Wrap_sublist: "sublist (Error c) (Error (Wrap p c))"
  by (simp add: sublist_append_leftI)

text \<open>A \<^verbatim>\<open>nil\<close> retriever is called, and panics, only on the third branch.\<close>

lemma getUser_nil_retriever:
  "getUser ctx (engineConfig_zero\<lparr>emailRetreiver := None\<rparr>) = (Panicked, [])"
  by (simp add: getUser_def engineConfig_zero_def)

text \<open>The table of \<^verbatim>\<open>TestGetUser\<close>, row by row.\<close>

lemma TestGetUser_rows:
  "fst (getUser Background (engineConfig_zero\<lparr>user := ''testUser'', password := ''testPass''\<rparr>))
     = Returned (''testUser'', False, None)"
  "fst (getUser Background (engineConfig_zero\<lparr>iamAccountEmail := ''test-service-account-email@test.com''\<rparr>))
     = Returned (''test-service-account-email@test.com'', True, None)"
  "fst (getUser Background (engineConfig_zero
          \<lparr>emailRetreiver := Some (\<lambda>ctx. (''test-service-account-email@test.com'', None))\<rparr>))
     = Returned (''test-service-account-email@test.com'', True, None)"
  "fst (getUser Background (engineConfig_zero\<lparr>user := ''testUser'', password := []\<rparr>))
     = Returned ([], False, Some (New ''unable to retrieve a valid username''))"
  "fst (getUser Background (engineConfig_zero\<lparr>user := [], password := ''testPassword''\<rparr>))
     = Returned ([], False, Some (New ''unable to retrieve a valid username''))"
  "fst (getUser Background (engineConfig_zero
          \<lparr>emailRetreiver := Some (\<lambda>ctx. ([], Some (New ''missing or invalid credentials'')))\<rparr>))
     = Returned ([], False,
         Some (Wrap ''unable to retrieve service account email: '' (New ''missing or invalid credentials'')))"
  by (simp_all add: getUser_def engineConfig_zero_def)

text \<open>
  Claim C1. Whenever the user name and the password of a configuration are both non-empty,
  \<open>getUser\<close> returns the user name with the IAM flag false and no error, whatever the other
  fields hold (an identity email, any email retriever or none), and its log of calls to the
  email retriever is empty.
\<close>

theorem getUser_user_and_password:
  assumes "user cfg \<noteq> []" and "password cfg \<noteq> []"
  shows "getUser ctx cfg = (Returned (user cfg, False, None), [])"
  using assms by (simp add: getUser_def)

theorem getUser_user_and_password_witness:
  "getUser Background
     (engineConfig_zero\<lparr>user := ''testUser'', password := ''testPass'',
        iamAccountEmail := ''sa@test.com'',
        emailRetreiver := Some (\<lambda>ctx. (''other@test.com'', None))\<rparr>)
   = (Returned (''testUser'', False, None), [])"
  using getUser_user_and_password
    [of "engineConfig_zero\<lparr>user := ''testUser'', password := ''testPass'',
           iamAccountEmail := ''sa@test.com'',
           emailRetreiver := Some (\<lambda>ctx. (''other@test.com'', None))\<rparr>" Background]
  by (simp add: engineConfig_zero_def)

text \<open>
  Claim C2. When the user name, the password and the identity email are all empty and a
  retriever is installed, \<open>getUser\<close> calls the retriever exactly once (the log is the one
  call, with the caller's context). If the retriever returns an email and no error, the
  result is that email with the IAM flag true and no error. If it returns an error \<open>c\<close>, the
  result is the error that wraps \<open>c\<close>, whose message is
  \<^verbatim>\<open>unable to retrieve service account email: \<close> followed by the message of \<open>c\<close>, so the
  message of \<open>c\<close> is a part of it.
\<close>

theorem getUser_retrieves_email:
  assumes "user cfg = []" and "password cfg = []" and "iamAccountEmail cfg = []"
    and "emailRetreiver cfg = Some retrieve"
  shows "snd (getUser ctx cfg) = [EmailRetrieverCall ctx] \<and>
    fst (getUser ctx cfg) =
      (case retrieve ctx of
         (e, None) \<Rightarrow> Returned (e, True, None)
       | (e, Some c) \<Rightarrow>
           Returned ([], False, Some (Wrap ''unable to retrieve service account email: '' c))) \<and>
    (\<forall>c. Error (Wrap ''unable to retrieve service account email: '' c) =
            ''unable to retrieve service account email: '' @ Error c \<and>
          sublist (Error c) (Error (Wrap ''unable to retrieve service account email: '' c)))"
proof (intro conjI allI)
  show "snd (getUser ctx cfg) = [EmailRetrieverCall ctx]"
    using assms by (simp add: getUser_def split: prod.splits option.splits)
  show "fst (getUser ctx cfg) =
      (case retrieve ctx of
         (e, None) \<Rightarrow> Returned (e, True, None)
       | (e, Some c) \<Rightarrow>
           Returned ([], False, Some (Wrap ''unable to retrieve service account email: '' c)))"
    using assms by (simp add: getUser_def split: prod.splits option.splits)
  fix c
  show "Error (Wrap ''unable to retrieve service account email: '' c) =
            ''unable to retrieve service account email: '' @ Error c"
    by (simp only: Error.simps)
  show "sublist (Error c) (Error (Wrap ''unable to retrieve service account email: '' c))"
    by (rule Error_Wrap_sublist)
qed

theorem getUser_retrieves_email_witness:
  "getUser Background
     (engineConfig_zero\<lparr>emailRetreiver := Some (\<lambda>ctx. (''sa@test.com'', None))\<rparr>)
     = (Returned (''sa@test.com'', True, None), [EmailRetrieverCall Background]) \<and>
   getUser Background
     (engineConfig_zero
        \<lparr>emailRetreiver := Some (\<lambda>ctx. ([], Some (New ''missing or invalid credentials'')))\<rparr>)
     = (Returned ([], False,
          Some (Wrap ''unable to retrieve service account email: ''
                  (New ''missing or invalid credentials''))),
        [EmailRetrieverCall Background]) \<and>
   Error (Wrap ''unable to retrieve service account email: '' (New ''missing or invalid credentials''))
     = ''unable to retrieve service account email: missing or invalid credentials''"
proof -
  let ?ok = "\<lambda>ctx::context. (''sa@test.com'', None :: error option)"
  let ?bad = "\<lambda>ctx::context. ([] :: string, Some (New ''missing or invalid credentials''))"
  have a: "snd (getUser Background (engineConfig_zero\<lparr>emailRetreiver := Some ?ok\<rparr>))
             = [EmailRetrieverCall Background] \<and>
           fst (getUser Background (engineConfig_zero\<lparr>emailRetreiver := Some ?ok\<rparr>))
             = Returned (''sa@test.com'', True, None)"
    using getUser_retrieves_email
      [of "engineConfig_zero\<lparr>emailRetreiver := Some ?ok\<rparr>" ?ok Background]
    by (simp add: engineConfig_zero_def)
  have b: "snd (getUser Background (engineConfig_zero\<lparr>emailRetreiver := Some ?bad\<rparr>))
             = [EmailRetrieverCall Background] \<and>
           fst (getUser Background (engineConfig_zero\<lparr>emailRetreiver := Some ?bad\<rparr>))
             = Returned ([], False,
                 Some (Wrap ''unable to retrieve service account email: ''
                         (New ''missing or invalid credentials'')))"
    using getUser_retrieves_email
      [of "engineConfig_zero\<lparr>emailRetreiver := Some ?bad\<rparr>" ?bad Background]
    by (simp add: engineConfig_zero_def)
  show ?thesis
    using a b by (simp add: prod_eq_iff)
qed

text \<open>
  Claim C3. When exactly one of the user name and the password is non-empty, \<open>getUser\<close>
  returns the identity email with the IAM flag true and no error if the identity email is
  non-empty, and the error \<^verbatim>\<open>unable to retrieve a valid username\<close> if it is empty. This holds
  with the user name alone and with the password alone, and the log of calls to the email
  retriever is empty in every case.
\<close>

theorem getUser_partial_credentials:
  assumes "(user cfg = []) \<noteq> (password cfg = [])"
  shows "getUser ctx cfg =
    (if iamAccountEmail cfg \<noteq> [] then (Returned (iamAccountEmail cfg, True, None), [])
     else (Returned ([], False, Some (New ''unable to retrieve a valid username'')), []))"
  using assms by (auto simp add: getUser_def)

theorem getUser_partial_credentials_witness:
  "getUser Background (engineConfig_zero\<lparr>user := ''testUser''\<rparr>)
     = (Returned ([], False, Some (New ''unable to retrieve a valid username'')), []) \<and>
   getUser Background (engineConfig_zero\<lparr>password := ''testPassword''\<rparr>)
     = (Returned ([], False, Some (New ''unable to retrieve a valid username'')), []) \<and>
   getUser Background (engineConfig_zero\<lparr>user := ''testUser'', iamAccountEmail := ''sa@test.com''\<rparr>)
     = (Returned (''sa@test.com'', True, None), []) \<and>
   getUser Background
     (engineConfig_zero\<lparr>password := ''testPassword'', iamAccountEmail := ''sa@test.com'',
        emailRetreiver := Some (\<lambda>ctx. (''other@test.com'', None))\<rparr>)
     = (Returned (''sa@test.com'', True, None), [])"
  using getUser_partial_credentials [of "engineConfig_zero\<lparr>user := ''testUser''\<rparr>" Background]
    getUser_partial_credentials [of "engineConfig_zero\<lparr>password := ''testPassword''\<rparr>" Background]
    getUser_partial_credentials
      [of "engineConfig_zero\<lparr>user := ''testUser'', iamAccountEmail := ''sa@test.com''\<rparr>" Background]
    getUser_partial_credentials
      [of "engineConfig_zero\<lparr>password := ''testPassword'', iamAccountEmail := ''sa@test.com'',
             emailRetreiver := Some (\<lambda>ctx. (''other@test.com'', None))\<rparr>" Background]
  by (simp add: engineConfig_zero_def)

section \<open>Connection factory\<close>














text \<open>
  Claim C9. When the dialer starts and the descriptor parses, \<open>createPool\<close> hands one
  configuration to \<^verbatim>\<open>NewWithConfig\<close>, and the dial function installed in it, called with any
  context, network and address, dials through the dialer that was started the instance
  \<^verbatim>\<open>projects/\<close>\<open>project\<close>\<^verbatim>\<open>/locations/\<close>\<open>region\<close>\<^verbatim>\<open>/clusters/\<close>\<open>cluster\<close>\<^verbatim>\<open>/instances/\<close>\<open>instance\<close> of the
  configuration, with the private-IP option if the IP type of the configuration is exactly
  \<^verbatim>\<open>PRIVATE\<close> and with the public-IP option for every other value.
\<close>

theorem createPool_DialFunc:
  assumes "NewDialer ext ctx (dialeropts iam) = (d, None)"
    and "ParseConfig ext (dsn cfg iam) = (config, None)"
  shows "dialed (snd (createPool ext ctx cfg iam)) ctx' network addr =
    [Some (Dial d ctx'
       (''projects/'' @ projectID cfg @ ''/locations/'' @ region cfg @ ''/clusters/''
          @ cluster cfg @ ''/instances/'' @ instance' cfg)
       (if ipType cfg = ''PRIVATE'' then WithPrivateIP else WithPublicIP))]"
proof -
  have "configs (snd (createPool ext ctx cfg iam)) =
      [config\<lparr>ConnConfig_DialFunc := Some (DialFunc cfg d (instanceURI cfg))\<rparr>]"
    using assms by (simp add: createPool_def configs_def Let_def split: prod.splits option.splits)
  then show ?thesis
    by (simp add: dialed_def DialFunc_def instanceURI_def)
qed

theorem createPool_DialFunc_witness:
  "dialed (snd (createPool externals_ok Background
       (engineConfig_zero\<lparr>projectID := ''p'', region := ''r'', cluster := ''c'', instance' := ''i'',
          ipType := ''PRIVATE''\<rparr>) True)) Background ''tcp'' ''localhost:5432''
     = [Some (Dial (DialerHandle 0) Background
          ''projects/p/locations/r/clusters/c/instances/i'' WithPrivateIP)] \<and>
   dialed (snd (createPool externals_ok Background
       (engineConfig_zero\<lparr>projectID := ''p'', region := ''r'', cluster := ''c'', instance' := ''i'',
          ipType := ''private''\<rparr>) True)) Background ''tcp'' ''localhost:5432''
     = [Some (Dial (DialerHandle 0) Background
          ''projects/p/locations/r/clusters/c/instances/i'' WithPublicIP)] \<and>
   dialed (snd (createPool externals_ok Background
       (engineConfig_zero\<lparr>projectID := ''p'', region := ''r'', cluster := ''c'', instance' := ''i'',
          ipType := []\<rparr>) True)) Background ''tcp'' ''localhost:5432''
     = [Some (Dial (DialerHandle 0) Background
          ''projects/p/locations/r/clusters/c/instances/i'' WithPublicIP)]"
proof -
  have started: "NewDialer externals_ok Background (dialeropts True) = (DialerHandle 0, None)"
    by (simp add: externals_ok_def)
  have parsed: "\<And>c. ParseConfig externals_ok (dsn c True) =
      (\<lparr>ConnString = dsn c True, ConnConfig_DialFunc = None\<rparr>, None)"
    by (simp add: externals_ok_def)
  show ?thesis
    using createPool_DialFunc [OF started parsed,
        of "engineConfig_zero\<lparr>projectID := ''p'', region := ''r'', cluster := ''c'',
              instance' := ''i'', ipType := ''PRIVATE''\<rparr>" Background "''tcp''" "''localhost:5432''"]
      createPool_DialFunc [OF started parsed,
        of "engineConfig_zero\<lparr>projectID := ''p'', region := ''r'', cluster := ''c'',
              instance' := ''i'', ipType := ''private''\<rparr>" Background "''tcp''" "''localhost:5432''"]
      createPool_DialFunc [OF started parsed,
        of "engineConfig_zero\<lparr>projectID := ''p'', region := ''r'', cluster := ''c'',
              instance' := ''i'', ipType := []\<rparr>" Background "''tcp''" "''localhost:5432''"]
    by (simp add: engineConfig_zero_def)
qed

section \<open>Engine\<close>

text \<open>\<open>Close\<close> through a \<^verbatim>\<open>nil\<close> engine pointer reads the pool of no engine.\<close>

lemma Close_nil_engine: "Close lib None s = (Panicked, s)"
  by (simp add: Close_def)

text \<open>
  Claim C8. On an engine in any state, with its pool reference set or \<^verbatim>\<open>nil\<close>, and
  whatever happened to the pool before, \<open>Close\<close> returns, without a panic; it has no error
  result. With a \<^verbatim>\<open>nil\<close> pool reference it changes nothing and calls nothing. Otherwise it
  calls the \<^verbatim>\<open>Close\<close> of the pool once, and leaves the engine as it was, so that
  a second \<open>Close\<close> returns as well (it calls the \<^verbatim>\<open>Close\<close> of the pool again).
\<close>

theorem Close_safe:
  "fst (Close lib (Some e) s) = Returned () \<and>
   Close lib (Some (e\<lparr>Pool := None\<rparr>)) s = (Returned (), s) \<and>
   calls (snd (Close lib (Some e) s)) =
     calls s @ (case Pool e of None \<Rightarrow> [] | Some h \<Rightarrow> [CloseCall h]) \<and>
   fst (Close lib (Some e) (snd (Close lib (Some e) s))) = Returned ()"
  by (simp add: Close_def split: option.splits)

text \<open>
  Claim C10. If \<open>applyClientOptions\<close> fails, \<open>NewPostgresEngine\<close> returns a \<^verbatim>\<open>nil\<close> engine
  with that error; if \<open>getUser\<close> fails, a \<^verbatim>\<open>nil\<close> engine with the error wrapped. If both
  succeed, no pool is supplied and \<open>createPool\<close> fails, it returns an engine that is not
  \<^verbatim>\<open>nil\<close>, whose pool reference is \<^verbatim>\<open>nil\<close>, with the error of \<open>createPool\<close>; \<open>Close\<close> on that
  engine returns and changes nothing.
\<close>

theorem NewPostgresEngine_failures:
  "(applyClientOptions opts = (cfg, Some err) \<longrightarrow>
      NewPostgresEngine applyClientOptions ext ctx opts = (Returned (None, Some err), [])) \<and>
   (applyClientOptions opts = (cfg, None) \<and> getUser ctx cfg = (Returned (u, iam, Some err), log) \<longrightarrow>
      NewPostgresEngine applyClientOptions ext ctx opts =
        (Returned (None, Some (Wrap ''error assigning user. Err: '' err)), log)) \<and>
   (applyClientOptions opts = (cfg, None) \<and> getUser ctx cfg = (Returned (u, iam, None), log) \<and>
    connPool cfg = None \<and>
    createPool ext ctx (if iam then cfg\<lparr>user := u\<rparr> else cfg) iam = ((pool, Some err), log') \<longrightarrow>
      NewPostgresEngine applyClientOptions ext ctx opts =
        (Returned (Some \<lparr>Pool = None\<rparr>, Some err), log @ log') \<and>
      Close lib (Some \<lparr>Pool = None\<rparr>) s = (Returned (), s))"
  by (simp add: NewPostgresEngine_def Close_def Let_def)

theorem NewPostgresEngine_failures_witness:
  "NewPostgresEngine (\<lambda>opts. (engineConfig_zero, Some (New ''missing connection'')))
      externals_ok Background ([] :: unit list)
     = (Returned (None, Some (New ''missing connection'')), []) \<and>
   NewPostgresEngine (\<lambda>opts. (engineConfig_zero\<lparr>user := ''testUser''\<rparr>, None))
      externals_ok Background ([] :: unit list)
     = (Returned (None,
          Some (Wrap ''error assigning user. Err: '' (New ''unable to retrieve a valid username''))),
        []) \<and>
   NewPostgresEngine (\<lambda>opts. (engineConfig_zero\<lparr>user := ''testUser'', password := ''testPass''\<rparr>, None))
      externals_no_dialer Background ([] :: unit list)
     = (Returned (Some \<lparr>Pool = None\<rparr>,
          Some (Wrap ''failed to initialize connection: '' (New ''no credentials''))),
        [NewDialerCall Background []]) \<and>
   Close pgxpool_catalogue (Some \<lparr>Pool = None\<rparr>) \<lparr>db = [], calls = []\<rparr>
     = (Returned (), \<lparr>db = [], calls = []\<rparr>)"
proof -
  let ?partial = "engineConfig_zero\<lparr>user := ''testUser''\<rparr>"
  let ?full = "engineConfig_zero\<lparr>user := ''testUser'', password := ''testPass''\<rparr>"
  have a: "getUser Background ?partial =
      (Returned ([], False, Some (New ''unable to retrieve a valid username'')), [])"
    by (simp add: getUser_def engineConfig_zero_def)
  have b: "getUser Background ?full = (Returned (''testUser'', False, None), [])"
    by (simp add: getUser_def engineConfig_zero_def)
  have c: "connPool ?full = None"
    by (simp add: engineConfig_zero_def)
  have d: "createPool externals_no_dialer Background (if False then ?full\<lparr>user := ''testUser''\<rparr> else ?full) False =
      ((None, Some (Wrap ''failed to initialize connection: '' (New ''no credentials''))),
       [NewDialerCall Background []])"
    by (simp add: createPool_def externals_no_dialer_def externals_ok_def dialeropts_def)
  show ?thesis
    using NewPostgresEngine_failures
        [of "\<lambda>opts. (engineConfig_zero, Some (New ''missing connection''))" "[] :: unit list"
          engineConfig_zero "New ''missing connection''" externals_ok Background]
      NewPostgresEngine_failures
        [of "\<lambda>opts. (?partial, None)" "[] :: unit list" ?partial
          "New ''unable to retrieve a valid username''" externals_ok Background "[]" False "[]"]
      NewPostgresEngine_failures
        [of "\<lambda>opts. (?full, None)" "[] :: unit list" ?full
          "Wrap ''failed to initialize connection: '' (New ''no credentials'')"
          externals_no_dialer Background "''testUser''" False "[]" None "[NewDialerCall Background []]"
          pgxpool_catalogue "\<lparr>db = [], calls = []\<rparr>"]
      a b c d
    by simp
qed

section \<open>Table provisioning\<close>

text \<open>The loop over the metadata columns appends one clause for each column, in order.\<close>

lemma foldl_addColumn:
  \<open>foldl addColumn query metadataColumns =
    query @ concat (map (\<lambda>c. '', "'' @ Name c @ ''" '' @ DataType c
                              @ (if Nullable c then '' '' else '' NOT NULL'')) metadataColumns)\<close>
  by (induction metadataColumns arbitrary: query) (simp_all add: addColumn_def quoted_def dquote_def)

lemma defaultIdColumn_eq:
  "defaultIdColumn idColumn =
    \<lparr>Name = (if Name idColumn = [] then ''langchain_id'' else Name idColumn),
     DataType = (if DataType idColumn = [] then ''UUID'' else DataType idColumn),
     Nullable = Nullable idColumn\<rparr>"
  by (simp add: defaultIdColumn_def Let_def)

lemma createQuery_text:
  \<open>createQuery vsTableOpts metadataColumns idColumn storeMetadata =
    ''CREATE TABLE "'' @ SchemaName vsTableOpts @ ''"."'' @ TableName vsTableOpts @ ''" (\<newline>''
      @ [CHR 0x09, CHR 0x09] @ ''"'' @ (if Name idColumn = [] then ''langchain_id'' else Name idColumn)
      @ ''" '' @ (if DataType idColumn = [] then ''UUID'' else DataType idColumn)
      @ '' PRIMARY KEY,\<newline>''
      @ [CHR 0x09, CHR 0x09] @ ''"'' @ ContentColumnName vsTableOpts @ ''" TEXT NOT NULL,\<newline>''
      @ [CHR 0x09, CHR 0x09] @ ''"'' @ EmbeddingColumn vsTableOpts @ ''" vector(''
      @ Sprintf_d (VectorSize vsTableOpts) @ '') NOT NULL''
      @ concat (map (\<lambda>c. '', "'' @ Name c @ ''" '' @ DataType c
                          @ (if Nullable c then '' '' else '' NOT NULL'')) metadataColumns)
      @ (if storeMetadata then '', "'' @ MetadataJsonColumn vsTableOpts @ ''" JSON'' else [])
      @ '');''\<close>
  by (simp add: createQuery_def Let_def foldl_addColumn defaultIdColumn_eq quoted_def dquote_def
      nl_tab_tab_def)

lemma dropQuery_text:
  \<open>dropQuery vsTableOpts =
    ''DROP TABLE IF EXISTS "'' @ SchemaName vsTableOpts @ ''"."'' @ TableName vsTableOpts @ ''"''\<close>
  by (simp add: dropQuery_def quoted_def dquote_def)

text \<open>
  The statements of one run: the extension first, then the drop if asked for, then the
  creation; the run stops at the first statement that fails.
\<close>

lemma InitVectorstoreTable_issued:
  "\<exists>new.
     statements (calls (snd (InitVectorstoreTable lib (Some \<lparr>Pool = Some h\<rparr>) ctx vsTableOpts
        metadataColumns idColumn overwriteExisting storeMetadata s))) = statements (calls s) @ new \<and>
     prefix new
       (if overwriteExisting then
          [''CREATE EXTENSION IF NOT EXISTS vector'', dropQuery vsTableOpts,
           createQuery vsTableOpts metadataColumns idColumn storeMetadata]
        else
          [''CREATE EXTENSION IF NOT EXISTS vector'',
           createQuery vsTableOpts metadataColumns idColumn storeMetadata]) \<and>
     new \<noteq> [] \<and>
     (fst (InitVectorstoreTable lib (Some \<lparr>Pool = Some h\<rparr>) ctx vsTableOpts
        metadataColumns idColumn overwriteExisting storeMetadata s) = Returned None \<longrightarrow>
      new =
       (if overwriteExisting then
          [''CREATE EXTENSION IF NOT EXISTS vector'', dropQuery vsTableOpts,
           createQuery vsTableOpts metadataColumns idColumn storeMetadata]
        else
          [''CREATE EXTENSION IF NOT EXISTS vector'',
           createQuery vsTableOpts metadataColumns idColumn storeMetadata]))"
  by (auto simp add: InitVectorstoreTable_def Exec_def statements_def
      split: prod.splits option.splits outcome.splits)

text \<open>Without a pool, or without an engine, the first \<^verbatim>\<open>Exec\<close> panics.\<close>

lemma InitVectorstoreTable_nil_pool:
  "InitVectorstoreTable lib (Some \<lparr>Pool = None\<rparr>) ctx vsTableOpts metadataColumns idColumn
     overwriteExisting storeMetadata s = (Panicked, s)"
  by (simp add: InitVectorstoreTable_def Exec_def)

text \<open>
  On the sample database a second run without \<open>overwriteExisting\<close> fails: the plain
  \<^verbatim>\<open>CREATE TABLE\<close> is refused the second time.
\<close>

lemma InitVectorstoreTable_twice_catalogue:
  "fst (InitVectorstoreTable pgxpool_catalogue (Some \<lparr>Pool = Some (PoolHandle 0)\<rparr>) Background
      (new_VectorstoreTableOptions\<lparr>TableName := ''t'', VectorSize := 128, SchemaName := ''public''\<rparr>)
      [] \<lparr>Name = [], DataType = [], Nullable = False\<rparr> False False
      (snd (InitVectorstoreTable pgxpool_catalogue (Some \<lparr>Pool = Some (PoolHandle 0)\<rparr>) Background
        (new_VectorstoreTableOptions\<lparr>TableName := ''t'', VectorSize := 128, SchemaName := ''public''\<rparr>)
        [] \<lparr>Name = [], DataType = [], Nullable = False\<rparr> False False \<lparr>db = [], calls = []\<rparr>)))
   = Returned (Some (New ''failed to create table: relation already exists''))"
  by (simp add: InitVectorstoreTable_def Exec_def pgxpool_catalogue_def dquote_def
      createQuery_text dropQuery_text new_VectorstoreTableOptions_def Errorf_v_def)

lemma Sprintf_d_128: "Sprintf_d 128 = ''128''"
  by (simp add: Sprintf_d_def digit_def)

text \<open>
  Claim C5. For every table specification, list of metadata columns, id column and flags,
  the statement that creates the table is \<^verbatim>\<open>CREATE TABLE "schema"."table" (\<close>, then the id column
  (its name and type, or \<^verbatim>\<open>langchain_id\<close> and \<^verbatim>\<open>UUID\<close> where empty) with \<^verbatim>\<open>PRIMARY KEY\<close>, then the
  content column with \<^verbatim>\<open>TEXT NOT NULL\<close>, then the embedding column with \<^verbatim>\<open>vector(dim) NOT NULL\<close>,
  then one clause for each metadata column in the order of the caller's list, ending in
  \<^verbatim>\<open>NOT NULL\<close> exactly when the column is not nullable, then the clause of the JSON metadata
  column exactly when \<open>storeMetadata\<close> is true, then \<^verbatim>\<open>);\<close>. On an engine with a pool, the
  statements of a run are, in this order, the one for the extension, then
  \<^verbatim>\<open>DROP TABLE IF EXISTS "schema"."table"\<close> exactly when \<open>overwriteExisting\<close> is true, then the
  one that creates the table; the run issues a non-empty initial part of this list (it
  stops at the first statement that fails), and all of it when it returns no error.
\<close>

theorem InitVectorstoreTable_statements:
  \<open>createQuery vsTableOpts metadataColumns idColumn storeMetadata =
    ''CREATE TABLE "'' @ SchemaName vsTableOpts @ ''"."'' @ TableName vsTableOpts @ ''" (\<newline>''
      @ [CHR 0x09, CHR 0x09] @ ''"'' @ (if Name idColumn = [] then ''langchain_id'' else Name idColumn)
      @ ''" '' @ (if DataType idColumn = [] then ''UUID'' else DataType idColumn)
      @ '' PRIMARY KEY,\<newline>''
      @ [CHR 0x09, CHR 0x09] @ ''"'' @ ContentColumnName vsTableOpts @ ''" TEXT NOT NULL,\<newline>''
      @ [CHR 0x09, CHR 0x09] @ ''"'' @ EmbeddingColumn vsTableOpts @ ''" vector(''
      @ Sprintf_d (VectorSize vsTableOpts) @ '') NOT NULL''
      @ concat (map (\<lambda>c. '', "'' @ Name c @ ''" '' @ DataType c
                          @ (if Nullable c then '' '' else '' NOT NULL'')) metadataColumns)
      @ (if storeMetadata then '', "'' @ MetadataJsonColumn vsTableOpts @ ''" JSON'' else [])
      @ '');'' \<and>
   dropQuery vsTableOpts =
    ''DROP TABLE IF EXISTS "'' @ SchemaName vsTableOpts @ ''"."'' @ TableName vsTableOpts @ ''"'' \<and>
   (\<exists>new.
     statements (calls (snd (InitVectorstoreTable lib (Some \<lparr>Pool = Some h\<rparr>) ctx vsTableOpts
        metadataColumns idColumn overwriteExisting storeMetadata s))) = statements (calls s) @ new \<and>
     prefix new
       (if overwriteExisting then
          [''CREATE EXTENSION IF NOT EXISTS vector'', dropQuery vsTableOpts,
           createQuery vsTableOpts metadataColumns idColumn storeMetadata]
        else
          [''CREATE EXTENSION IF NOT EXISTS vector'',
           createQuery vsTableOpts metadataColumns idColumn storeMetadata]) \<and>
     new \<noteq> [] \<and>
     (fst (InitVectorstoreTable lib (Some \<lparr>Pool = Some h\<rparr>) ctx vsTableOpts
        metadataColumns idColumn overwriteExisting storeMetadata s) = Returned None \<longrightarrow>
      new =
       (if overwriteExisting then
          [''CREATE EXTENSION IF NOT EXISTS vector'', dropQuery vsTableOpts,
           createQuery vsTableOpts metadataColumns idColumn storeMetadata]
        else
          [''CREATE EXTENSION IF NOT EXISTS vector'',
           createQuery vsTableOpts metadataColumns idColumn storeMetadata])))\<close>
  by (intro conjI createQuery_text dropQuery_text InitVectorstoreTable_issued)

theorem InitVectorstoreTable_statements_witness:
  \<open>statements (calls (snd (InitVectorstoreTable pgxpool_catalogue (Some \<lparr>Pool = Some (PoolHandle 0)\<rparr>)
      Background
      \<lparr>TableName = ''t'', VectorSize = 128, SchemaName = ''public'', ContentColumnName = ''content'',
       EmbeddingColumn = ''embedding'', MetadataJsonColumn = ''langchain_metadata''\<rparr>
      [\<lparr>Name = ''area'', DataType = ''int'', Nullable = False\<rparr>,
       \<lparr>Name = ''note'', DataType = ''text'', Nullable = True\<rparr>]
      \<lparr>Name = [], DataType = [], Nullable = False\<rparr> True True \<lparr>db = [], calls = []\<rparr>))) =
    [''CREATE EXTENSION IF NOT EXISTS vector'',
     ''DROP TABLE IF EXISTS "public"."t"'',
     ''CREATE TABLE "public"."t" (\<newline>''
       @ [CHR 0x09, CHR 0x09] @ ''"langchain_id" UUID PRIMARY KEY,\<newline>''
       @ [CHR 0x09, CHR 0x09] @ ''"content" TEXT NOT NULL,\<newline>''
       @ [CHR 0x09, CHR 0x09]
       @ ''"embedding" vector(128) NOT NULL, "area" int NOT NULL, "note" text , "langchain_metadata" JSON);''] \<and>
   statements (calls (snd (InitVectorstoreTable pgxpool_catalogue (Some \<lparr>Pool = Some (PoolHandle 0)\<rparr>)
      Background
      \<lparr>TableName = ''t'', VectorSize = 128, SchemaName = ''public'', ContentColumnName = ''content'',
       EmbeddingColumn = ''embedding'', MetadataJsonColumn = ''langchain_metadata''\<rparr>
      [] \<lparr>Name = ''id'', DataType = ''INT'', Nullable = False\<rparr> False False \<lparr>db = [], calls = []\<rparr>))) =
    [''CREATE EXTENSION IF NOT EXISTS vector'',
     ''CREATE TABLE "public"."t" (\<newline>''
       @ [CHR 0x09, CHR 0x09] @ ''"id" INT PRIMARY KEY,\<newline>''
       @ [CHR 0x09, CHR 0x09] @ ''"content" TEXT NOT NULL,\<newline>''
       @ [CHR 0x09, CHR 0x09] @ ''"embedding" vector(128) NOT NULL);'']\<close>
proof -
  let ?spec = "\<lparr>TableName = ''t'', VectorSize = 128, SchemaName = ''public'',
      ContentColumnName = ''content'', EmbeddingColumn = ''embedding'',
      MetadataJsonColumn = ''langchain_metadata''\<rparr>"
  let ?cols = "[\<lparr>Name = ''area'', DataType = ''int'', Nullable = False\<rparr>,
      \<lparr>Name = ''note'', DataType = ''text'', Nullable = True\<rparr>]"
  let ?engine = "Some \<lparr>Pool = Some (PoolHandle 0)\<rparr>"
  let ?empty = "\<lparr>db = [] :: string list, calls = []\<rparr>"
  have ok: "fst (InitVectorstoreTable pgxpool_catalogue ?engine Background ?spec ?cols
      \<lparr>Name = [], DataType = [], Nullable = False\<rparr> True True ?empty) = Returned None"
    by (simp add: InitVectorstoreTable_def Exec_def pgxpool_catalogue_def dquote_def
        createQuery_text dropQuery_text)
  have ok': "fst (InitVectorstoreTable pgxpool_catalogue ?engine Background ?spec []
      \<lparr>Name = ''id'', DataType = ''INT'', Nullable = False\<rparr> False False ?empty) = Returned None"
    by (simp add: InitVectorstoreTable_def Exec_def pgxpool_catalogue_def dquote_def
        createQuery_text dropQuery_text)
  show ?thesis
    using InitVectorstoreTable_statements
        [of ?spec ?cols "\<lparr>Name = [], DataType = [], Nullable = False\<rparr>" True pgxpool_catalogue
          "PoolHandle 0" Background True ?empty]
      InitVectorstoreTable_statements
        [of ?spec "[]" "\<lparr>Name = ''id'', DataType = ''INT'', Nullable = False\<rparr>" False pgxpool_catalogue
          "PoolHandle 0" Background False ?empty]
      ok ok'
    by (simp add: statements_def Sprintf_d_128)
qed

lemma NewVectorstoreTableOptions_examples:
  "NewVectorstoreTableOptions (Some (new_VectorstoreTableOptions\<lparr>TableName := ''items'', VectorSize := 128\<rparr>))
     = Returned (\<lparr>TableName = ''items'', VectorSize = 128, SchemaName = ''public'',
                  ContentColumnName = ''content'', EmbeddingColumn = ''embedding'',
                  MetadataJsonColumn = ''langchain_metadata''\<rparr>, None)"
  "NewVectorstoreTableOptions (Some (new_VectorstoreTableOptions\<lparr>VectorSize := 128\<rparr>))
     = Returned (new_VectorstoreTableOptions, Some (New ''missing table name in options''))"
  "NewVectorstoreTableOptions (Some (new_VectorstoreTableOptions\<lparr>TableName := ''items''\<rparr>))
     = Returned (new_VectorstoreTableOptions, Some (New ''missing vector size in options''))"
  "NewVectorstoreTableOptions None = Panicked"
  by (simp_all add: NewVectorstoreTableOptions_def new_VectorstoreTableOptions_def)

text \<open>
  Claim C6, as stated, fails in its last part. \<open>InitVectorstoreTable\<close> tests the name and
  the data type of the id column one by one, so an id column that lacks only one of them
  keeps the other. With an empty name and the data type \<^verbatim>\<open>INT\<close>, the statement that creates
  the table declares \<^verbatim>\<open>"langchain_id" INT PRIMARY KEY\<close>: the type is not \<^verbatim>\<open>UUID\<close>. With the name
  \<^verbatim>\<open>id\<close> and an empty data type it declares \<^verbatim>\<open>"id" UUID PRIMARY KEY\<close>: the name is not
  \<^verbatim>\<open>langchain_id\<close>.
\<close>

theorem InitVectorstoreTable_idColumn_counterexample:
  \<open>statements (calls (snd (InitVectorstoreTable pgxpool_catalogue (Some \<lparr>Pool = Some (PoolHandle 0)\<rparr>)
      Background
      \<lparr>TableName = ''t'', VectorSize = 128, SchemaName = ''public'', ContentColumnName = ''content'',
       EmbeddingColumn = ''embedding'', MetadataJsonColumn = ''langchain_metadata''\<rparr>
      [] \<lparr>Name = [], DataType = ''INT'', Nullable = False\<rparr> False False \<lparr>db = [], calls = []\<rparr>))) =
    [''CREATE EXTENSION IF NOT EXISTS vector'',
     ''CREATE TABLE "public"."t" (\<newline>''
       @ [CHR 0x09, CHR 0x09] @ ''"langchain_id" INT PRIMARY KEY,\<newline>''
       @ [CHR 0x09, CHR 0x09] @ ''"content" TEXT NOT NULL,\<newline>''
       @ [CHR 0x09, CHR 0x09] @ ''"embedding" vector(128) NOT NULL);''] \<and>
   statements (calls (snd (InitVectorstoreTable pgxpool_catalogue (Some \<lparr>Pool = Some (PoolHandle 0)\<rparr>)
      Background
      \<lparr>TableName = ''t'', VectorSize = 128, SchemaName = ''public'', ContentColumnName = ''content'',
       EmbeddingColumn = ''embedding'', MetadataJsonColumn = ''langchain_metadata''\<rparr>
      [] \<lparr>Name = ''id'', DataType = [], Nullable = False\<rparr> False False \<lparr>db = [], calls = []\<rparr>))) =
    [''CREATE EXTENSION IF NOT EXISTS vector'',
     ''CREATE TABLE "public"."t" (\<newline>''
       @ [CHR 0x09, CHR 0x09] @ ''"id" UUID PRIMARY KEY,\<newline>''
       @ [CHR 0x09, CHR 0x09] @ ''"content" TEXT NOT NULL,\<newline>''
       @ [CHR 0x09, CHR 0x09] @ ''"embedding" vector(128) NOT NULL);'']\<close>
  by (simp add: InitVectorstoreTable_def Exec_def statements_def pgxpool_catalogue_def dquote_def
      createQuery_text Sprintf_d_128)

text \<open>
  Claim C6, amended. \<open>NewVectorstoreTableOptions\<close> takes the options only and touches no
  pool. On options that are not \<^verbatim>\<open>nil\<close> it returns an error exactly when the table name is
  empty or the vector size is 0; otherwise it returns no error and the options with the
  table name and vector size as given, and with the schema name, the content column, the
  embedding column and the metadata JSON column as given when non-empty, and \<^verbatim>\<open>public\<close>,
  \<^verbatim>\<open>content\<close>, \<^verbatim>\<open>embedding\<close> and \<^verbatim>\<open>langchain_metadata\<close> when empty. Apart from that, in the
  statement by which \<open>InitVectorstoreTable\<close> creates the table (the last statement of every
  run that returns no error), the id column has the name \<^verbatim>\<open>langchain_id\<close> if the name given is
  empty and the name given otherwise, and the data type \<^verbatim>\<open>UUID\<close> if the data type given is
  empty and the data type given otherwise: each of the two is defaulted on its own.
\<close>

theorem NewVectorstoreTableOptions_defaults:
  \<open>NewVectorstoreTableOptions (Some opts) =
    (if TableName opts = [] then
       Returned (new_VectorstoreTableOptions, Some (New ''missing table name in options''))
     else if VectorSize opts = 0 then
       Returned (new_VectorstoreTableOptions, Some (New ''missing vector size in options''))
     else
       Returned
        (\<lparr>TableName = TableName opts,
          VectorSize = VectorSize opts,
          SchemaName = (if SchemaName opts = [] then ''public'' else SchemaName opts),
          ContentColumnName = (if ContentColumnName opts = [] then ''content'' else ContentColumnName opts),
          EmbeddingColumn = (if EmbeddingColumn opts = [] then ''embedding'' else EmbeddingColumn opts),
          MetadataJsonColumn =
            (if MetadataJsonColumn opts = [] then ''langchain_metadata'' else MetadataJsonColumn opts)\<rparr>,
         None)) \<and>
   (\<exists>v err. NewVectorstoreTableOptions (Some opts) = Returned (v, Some err)) =
     (TableName opts = [] \<or> VectorSize opts = 0) \<and>
   (fst (InitVectorstoreTable lib (Some \<lparr>Pool = Some h\<rparr>) ctx vsTableOpts metadataColumns idColumn
          overwriteExisting storeMetadata s) = Returned None \<longrightarrow>
    statements (calls (snd (InitVectorstoreTable lib (Some \<lparr>Pool = Some h\<rparr>) ctx vsTableOpts
        metadataColumns idColumn overwriteExisting storeMetadata s))) =
      statements (calls s)
      @ [''CREATE EXTENSION IF NOT EXISTS vector'']
      @ (if overwriteExisting then
           [''DROP TABLE IF EXISTS "'' @ SchemaName vsTableOpts @ ''"."'' @ TableName vsTableOpts @ ''"'']
         else [])
      @ [''CREATE TABLE "'' @ SchemaName vsTableOpts @ ''"."'' @ TableName vsTableOpts @ ''" (\<newline>''
          @ [CHR 0x09, CHR 0x09] @ ''"''
          @ (if Name idColumn = [] then ''langchain_id'' else Name idColumn)
          @ ''" '' @ (if DataType idColumn = [] then ''UUID'' else DataType idColumn)
          @ '' PRIMARY KEY,\<newline>''
          @ [CHR 0x09, CHR 0x09] @ ''"'' @ ContentColumnName vsTableOpts @ ''" TEXT NOT NULL,\<newline>''
          @ [CHR 0x09, CHR 0x09] @ ''"'' @ EmbeddingColumn vsTableOpts @ ''" vector(''
          @ Sprintf_d (VectorSize vsTableOpts) @ '') NOT NULL''
          @ concat (map (\<lambda>c. '', "'' @ Name c @ ''" '' @ DataType c
                              @ (if Nullable c then '' '' else '' NOT NULL'')) metadataColumns)
          @ (if storeMetadata then '', "'' @ MetadataJsonColumn vsTableOpts @ ''" JSON'' else [])
          @ '');''])\<close>
proof (intro conjI impI)
  assume ok: "fst (InitVectorstoreTable lib (Some \<lparr>Pool = Some h\<rparr>) ctx vsTableOpts metadataColumns
      idColumn overwriteExisting storeMetadata s) = Returned None"
  from InitVectorstoreTable_issued [of lib h ctx vsTableOpts metadataColumns idColumn
      overwriteExisting storeMetadata s] ok
  have "statements (calls (snd (InitVectorstoreTable lib (Some \<lparr>Pool = Some h\<rparr>) ctx vsTableOpts
        metadataColumns idColumn overwriteExisting storeMetadata s))) =
      statements (calls s)
      @ [''CREATE EXTENSION IF NOT EXISTS vector'']
      @ (if overwriteExisting then [dropQuery vsTableOpts] else [])
      @ [createQuery vsTableOpts metadataColumns idColumn storeMetadata]"
    by auto
  then show \<open>statements (calls (snd (InitVectorstoreTable lib (Some \<lparr>Pool = Some h\<rparr>) ctx vsTableOpts
        metadataColumns idColumn overwriteExisting storeMetadata s))) =
      statements (calls s)
      @ [''CREATE EXTENSION IF NOT EXISTS vector'']
      @ (if overwriteExisting then
           [''DROP TABLE IF EXISTS "'' @ SchemaName vsTableOpts @ ''"."'' @ TableName vsTableOpts @ ''"'']
         else [])
      @ [''CREATE TABLE "'' @ SchemaName vsTableOpts @ ''"."'' @ TableName vsTableOpts @ ''" (\<newline>''
          @ [CHR 0x09, CHR 0x09] @ ''"''
          @ (if Name idColumn = [] then ''langchain_id'' else Name idColumn)
          @ ''" '' @ (if DataType idColumn = [] then ''UUID'' else DataType idColumn)
          @ '' PRIMARY KEY,\<newline>''
          @ [CHR 0x09, CHR 0x09] @ ''"'' @ ContentColumnName vsTableOpts @ ''" TEXT NOT NULL,\<newline>''
          @ [CHR 0x09, CHR 0x09] @ ''"'' @ EmbeddingColumn vsTableOpts @ ''" vector(''
          @ Sprintf_d (VectorSize vsTableOpts) @ '') NOT NULL''
          @ concat (map (\<lambda>c. '', "'' @ Name c @ ''" '' @ DataType c
                              @ (if Nullable c then '' '' else '' NOT NULL'')) metadataColumns)
          @ (if storeMetadata then '', "'' @ MetadataJsonColumn vsTableOpts @ ''" JSON'' else [])
          @ '');'']\<close>
    by (simp only: createQuery_text dropQuery_text)
qed (auto simp add: NewVectorstoreTableOptions_def new_VectorstoreTableOptions_def Let_def)

theorem NewVectorstoreTableOptions_defaults_witness:
  \<open>statements (calls (snd (InitVectorstoreTable pgxpool_catalogue (Some \<lparr>Pool = Some (PoolHandle 0)\<rparr>)
      Background
      \<lparr>TableName = ''items'', VectorSize = 128, SchemaName = ''public'', ContentColumnName = ''content'',
       EmbeddingColumn = ''embedding'', MetadataJsonColumn = ''langchain_metadata''\<rparr>
      [] \<lparr>Name = [], DataType = [], Nullable = False\<rparr> False False \<lparr>db = [], calls = []\<rparr>))) =
    [''CREATE EXTENSION IF NOT EXISTS vector'',
     ''CREATE TABLE "public"."items" (\<newline>''
       @ [CHR 0x09, CHR 0x09] @ ''"langchain_id" UUID PRIMARY KEY,\<newline>''
       @ [CHR 0x09, CHR 0x09] @ ''"content" TEXT NOT NULL,\<newline>''
       @ [CHR 0x09, CHR 0x09] @ ''"embedding" vector(128) NOT NULL);''] \<and>
   statements (calls (snd (InitVectorstoreTable pgxpool_catalogue (Some \<lparr>Pool = Some (PoolHandle 0)\<rparr>)
      Background
      \<lparr>TableName = ''items'', VectorSize = 128, SchemaName = ''public'', ContentColumnName = ''content'',
       EmbeddingColumn = ''embedding'', MetadataJsonColumn = ''langchain_metadata''\<rparr>
      [] \<lparr>Name = ''key'', DataType = ''BIGINT'', Nullable = False\<rparr> True False \<lparr>db = [], calls = []\<rparr>))) =
    [''CREATE EXTENSION IF NOT EXISTS vector'',
     ''DROP TABLE IF EXISTS "public"."items"'',
     ''CREATE TABLE "public"."items" (\<newline>''
       @ [CHR 0x09, CHR 0x09] @ ''"key" BIGINT PRIMARY KEY,\<newline>''
       @ [CHR 0x09, CHR 0x09] @ ''"content" TEXT NOT NULL,\<newline>''
       @ [CHR 0x09, CHR 0x09] @ ''"embedding" vector(128) NOT NULL);''] \<and>
   statements (calls (snd (InitVectorstoreTable pgxpool_catalogue (Some \<lparr>Pool = Some (PoolHandle 0)\<rparr>)
      Background
      \<lparr>TableName = ''items'', VectorSize = 128, SchemaName = ''public'', ContentColumnName = ''content'',
       EmbeddingColumn = ''embedding'', MetadataJsonColumn = ''langchain_metadata''\<rparr>
      [] \<lparr>Name = [], DataType = ''BIGINT'', Nullable = False\<rparr> False False \<lparr>db = [], calls = []\<rparr>))) =
    [''CREATE EXTENSION IF NOT EXISTS vector'',
     ''CREATE TABLE "public"."items" (\<newline>''
       @ [CHR 0x09, CHR 0x09] @ ''"langchain_id" BIGINT PRIMARY KEY,\<newline>''
       @ [CHR 0x09, CHR 0x09] @ ''"content" TEXT NOT NULL,\<newline>''
       @ [CHR 0x09, CHR 0x09] @ ''"embedding" vector(128) NOT NULL);'']\<close>
proof -
  let ?spec = "\<lparr>TableName = ''items'', VectorSize = 128, SchemaName = ''public'',
      ContentColumnName = ''content'', EmbeddingColumn = ''embedding'',
      MetadataJsonColumn = ''langchain_metadata''\<rparr>"
  let ?engine = "Some \<lparr>Pool = Some (PoolHandle 0)\<rparr>"
  let ?empty = "\<lparr>db = [] :: string list, calls = []\<rparr>"
  have ok: "fst (InitVectorstoreTable pgxpool_catalogue ?engine Background ?spec []
      \<lparr>Name = [], DataType = [], Nullable = False\<rparr> False False ?empty) = Returned None"
    "fst (InitVectorstoreTable pgxpool_catalogue ?engine Background ?spec []
      \<lparr>Name = ''key'', DataType = ''BIGINT'', Nullable = False\<rparr> True False ?empty) = Returned None"
    "fst (InitVectorstoreTable pgxpool_catalogue ?engine Background ?spec []
      \<lparr>Name = [], DataType = ''BIGINT'', Nullable = False\<rparr> False False ?empty) = Returned None"
    by (simp_all add: InitVectorstoreTable_def Exec_def pgxpool_catalogue_def dquote_def
        createQuery_text dropQuery_text)
  note run = NewVectorstoreTableOptions_defaults [THEN conjunct2, THEN conjunct2, rule_format]
  show ?thesis
    using run [of pgxpool_catalogue "PoolHandle 0" Background ?spec "[]"
          "\<lparr>Name = [], DataType = [], Nullable = False\<rparr>" False False ?empty, OF ok(1)]
      run [of pgxpool_catalogue "PoolHandle 0" Background ?spec "[]"
          "\<lparr>Name = ''key'', DataType = ''BIGINT'', Nullable = False\<rparr>" True False ?empty, OF ok(2)]
      run [of pgxpool_catalogue "PoolHandle 0" Background ?spec "[]"
          "\<lparr>Name = [], DataType = ''BIGINT'', Nullable = False\<rparr>" False False ?empty, OF ok(3)]
    by (simp add: statements_def Sprintf_d_128)
qed

lemma createTableQuery_text:
  \<open>createTableQuery tableName schemaName =
    ''CREATE TABLE IF NOT EXISTS "'' @ schemaName @ ''"."'' @ tableName @ ''" (\<newline>''
      @ [CHR 0x09, CHR 0x09] @ ''id SERIAL PRIMARY KEY,\<newline>''
      @ [CHR 0x09, CHR 0x09] @ ''session_id TEXT NOT NULL,\<newline>''
      @ [CHR 0x09, CHR 0x09] @ ''data JSONB NOT NULL,\<newline>''
      @ [CHR 0x09, CHR 0x09] @ ''type TEXT NOT NULL\<newline>''
      @ [CHR 0x09] @ '');''\<close>
  by (simp add: createTableQuery_def quoted_def dquote_def nl_tab_tab_def)

lemma createTableQuery_prefix:
  "prefix ''CREATE TABLE IF NOT EXISTS '' (createTableQuery tableName schemaName)"
  by (simp add: createTableQuery_def)

lemma InitChatHistoryTable_run:
  "InitChatHistoryTable lib (Some \<lparr>Pool = Some h\<rparr>) ctx tableName schemaName s =
    (Returned (map_option (Errorf_v ''failed to execute query: '')
       (fst (Pool_Exec lib h ctx (createTableQuery tableName schemaName) (db s)))),
     \<lparr>db = snd (Pool_Exec lib h ctx (createTableQuery tableName schemaName) (db s)),
      calls = calls s @ [ExecCall h ctx (createTableQuery tableName schemaName)]\<rparr>)"
  by (simp add: InitChatHistoryTable_def Exec_def split: prod.splits option.splits)

text \<open>
  Claim C7. For every table name and schema name, \<open>InitChatHistoryTable\<close> on an engine with a
  pool executes exactly one statement at each call, the same at each call:
  \<^verbatim>\<open>CREATE TABLE IF NOT EXISTS "schema"."table"\<close> with the columns \<^verbatim>\<open>id SERIAL PRIMARY KEY\<close>,
  \<^verbatim>\<open>session_id TEXT NOT NULL\<close>, \<^verbatim>\<open>data JSONB NOT NULL\<close> and \<^verbatim>\<open>type TEXT NOT NULL\<close>; and it returns
  an error exactly when that statement fails. So, on a database that honours
  \<^verbatim>\<open>IF NOT EXISTS\<close> (a \<^verbatim>\<open>CREATE TABLE IF NOT EXISTS\<close> statement that has succeeded succeeds
  again when repeated), a second call right after a call that succeeded returns no error.
\<close>

theorem InitChatHistoryTable_idempotent:
  \<open>createTableQuery tableName schemaName =
    ''CREATE TABLE IF NOT EXISTS "'' @ schemaName @ ''"."'' @ tableName @ ''" (\<newline>''
      @ [CHR 0x09, CHR 0x09] @ ''id SERIAL PRIMARY KEY,\<newline>''
      @ [CHR 0x09, CHR 0x09] @ ''session_id TEXT NOT NULL,\<newline>''
      @ [CHR 0x09, CHR 0x09] @ ''data JSONB NOT NULL,\<newline>''
      @ [CHR 0x09, CHR 0x09] @ ''type TEXT NOT NULL\<newline>''
      @ [CHR 0x09] @ '');'' \<and>
   calls (snd (InitChatHistoryTable lib (Some \<lparr>Pool = Some h\<rparr>) ctx tableName schemaName s)) =
     calls s @ [ExecCall h ctx (createTableQuery tableName schemaName)] \<and>
   fst (InitChatHistoryTable lib (Some \<lparr>Pool = Some h\<rparr>) ctx tableName schemaName s) =
     Returned (map_option (Errorf_v ''failed to execute query: '')
       (fst (Pool_Exec lib h ctx (createTableQuery tableName schemaName) (db s)))) \<and>
   ((\<forall>sql d d'. prefix ''CREATE TABLE IF NOT EXISTS '' sql \<and> Pool_Exec lib h ctx sql d = (None, d') \<longrightarrow>
        fst (Pool_Exec lib h ctx sql d') = None) \<and>
    fst (InitChatHistoryTable lib (Some \<lparr>Pool = Some h\<rparr>) ctx tableName schemaName s) = Returned None \<longrightarrow>
    fst (InitChatHistoryTable lib (Some \<lparr>Pool = Some h\<rparr>) ctx tableName schemaName
          (snd (InitChatHistoryTable lib (Some \<lparr>Pool = Some h\<rparr>) ctx tableName schemaName s)))
      = Returned None)\<close>
proof (intro conjI impI)
  assume a: \<open>(\<forall>sql d d'. prefix ''CREATE TABLE IF NOT EXISTS '' sql \<and> Pool_Exec lib h ctx sql d = (None, d') \<longrightarrow>
        fst (Pool_Exec lib h ctx sql d') = None) \<and>
    fst (InitChatHistoryTable lib (Some \<lparr>Pool = Some h\<rparr>) ctx tableName schemaName s) = Returned None\<close>
  let ?q = "createTableQuery tableName schemaName"
  from a have first: "fst (Pool_Exec lib h ctx ?q (db s)) = None"
    by (simp add: InitChatHistoryTable_run)
  then have "Pool_Exec lib h ctx ?q (db s) = (None, snd (Pool_Exec lib h ctx ?q (db s)))"
    by (simp add: prod_eq_iff)
  with a createTableQuery_prefix [of tableName schemaName]
  have "fst (Pool_Exec lib h ctx ?q (snd (Pool_Exec lib h ctx ?q (db s)))) = None"
    by blast
  then show \<open>fst (InitChatHistoryTable lib (Some \<lparr>Pool = Some h\<rparr>) ctx tableName schemaName
          (snd (InitChatHistoryTable lib (Some \<lparr>Pool = Some h\<rparr>) ctx tableName schemaName s)))
      = Returned None\<close>
    by (simp add: InitChatHistoryTable_run)
qed (simp_all only: createTableQuery_text InitChatHistoryTable_run fst_conv snd_conv server.simps)

lemma catalogue_if_not_exists:
  "prefix ''CREATE TABLE IF NOT EXISTS '' sql \<Longrightarrow> Pool_Exec pgxpool_catalogue h ctx sql d = (None, d @ [sql])"
  by (auto simp add: pgxpool_catalogue_def dquote_def prefix_def)

theorem InitChatHistoryTable_idempotent_witness:
  "fst (InitChatHistoryTable pgxpool_catalogue (Some \<lparr>Pool = Some (PoolHandle 0)\<rparr>) Background ''items'' ''public''
      \<lparr>db = [], calls = []\<rparr>) = Returned None \<and>
   fst (InitChatHistoryTable pgxpool_catalogue (Some \<lparr>Pool = Some (PoolHandle 0)\<rparr>) Background ''items'' ''public''
      (snd (InitChatHistoryTable pgxpool_catalogue (Some \<lparr>Pool = Some (PoolHandle 0)\<rparr>) Background ''items'' ''public''
      \<lparr>db = [], calls = []\<rparr>))) = Returned None"
proof -
  have hyp: "\<forall>sql d d'. prefix ''CREATE TABLE IF NOT EXISTS '' sql \<and>
      Pool_Exec pgxpool_catalogue (PoolHandle 0) Background sql d = (None, d') \<longrightarrow>
        fst (Pool_Exec pgxpool_catalogue (PoolHandle 0) Background sql d') = None"
    by (simp add: catalogue_if_not_exists)
  have first: "fst (InitChatHistoryTable pgxpool_catalogue (Some \<lparr>Pool = Some (PoolHandle 0)\<rparr>) Background ''items'' ''public''
      \<lparr>db = [], calls = []\<rparr>) = Returned None"
    by (simp add: InitChatHistoryTable_run catalogue_if_not_exists createTableQuery_prefix)
  show ?thesis
    using InitChatHistoryTable_idempotent [of "''items''" "''public''" pgxpool_catalogue "PoolHandle 0" Background "\<lparr>db = [], calls = []\<rparr>"] hyp first
    by blast
qed

end
